theory Spec2Isabelle
  imports Main "HOL-Library.AList"
begin

section \<open>The room server (index.ts)\<close>

text \<open>
  The server keeps one registry \<open>rooms\<close>, a JavaScript \<open>Map\<close> from room id to room, and
  every room keeps a \<open>Map\<close> from socket id to user. A \<open>Map\<close> iterates in insertion order,
  \<open>set\<close> on a key that is present replaces the value in place and on a new key appends
  the entry, and \<open>delete\<close> removes the entry: an association list with
  \<open>AList.update\<close> and \<open>AList.delete\<close>. The numbers of the program (time stamps and
  cursor coordinates) are only stored and copied, so their type \<open>'n\<close> is left open, and so
  is the type \<open>'e\<close> of the canvas elements (\<open>any[]\<close> in the source).
\<close>

record 'n user =
  user_id :: string
  name :: string
  color :: string
  cursor :: "('n \<times> 'n) option"
  isDrawing :: bool

record ('e, 'n) room =
  room_id :: string
  users :: "(string \<times> 'n user) list"
  canvasState :: "'e list"
  lastUpdate :: 'n

type_synonym ('e, 'n) rooms = "(string \<times> ('e, 'n) room) list"

abbreviation map_get :: "('k \<times> 'v) list \<Rightarrow> 'k \<Rightarrow> 'v option" where
  "map_get m k \<equiv> map_of m k"

abbreviation map_has :: "('k \<times> 'v) list \<Rightarrow> 'k \<Rightarrow> bool" where
  "map_has m k \<equiv> map_of m k \<noteq> None"

abbreviation map_set :: "'k \<Rightarrow> 'v \<Rightarrow> ('k \<times> 'v) list \<Rightarrow> ('k \<times> 'v) list" where
  "map_set k v m \<equiv> AList.update k v m"

abbreviation map_delete :: "'k \<Rightarrow> ('k \<times> 'v) list \<Rightarrow> ('k \<times> 'v) list" where
  "map_delete k m \<equiv> AList.delete k m"

abbreviation map_size :: "('k \<times> 'v) list \<Rightarrow> nat" where
  "map_size m \<equiv> length m"

abbreviation map_values :: "('k \<times> 'v) list \<Rightarrow> 'v list" where
  "map_values m \<equiv> map snd m"

subsection \<open>What the server sends\<close>

text \<open>
  One constructor for each event name the server emits, with the fields of its payload
  in the order of the source.
\<close>

datatype ('e, 'n) msg =
    RoomCreated string "'n user"
  | RoomError string
  | RoomJoined string "'n user" "'n user list" "'e list"
  | UserJoined "'n user"
  | CanvasUpdated "'e list" string 'n
  | CursorUpdated string "('n \<times> 'n) option" string string bool
  | UserDrawingStart string string string
  | UserDrawingEnd string
  | SyncResponse "'e list" 'n "'n user list"
  | UserLeft string string

text \<open>
  A handler runs for one socket. \<open>Emit m\<close> is \<open>socket.emit\<close>, a message to that socket
  only; \<open>To r m\<close> is \<open>socket.to(r).emit\<close>, a message to every socket of the transport
  group \<open>r\<close> except that socket; \<open>Join r\<close> is \<open>socket.join(r)\<close>.
\<close>

datatype ('e, 'n) action =
    Join string
  | Emit "('e, 'n) msg"
  | To string "('e, 'n) msg"

text \<open>
  The transport's side of the contract: who gets the message of an action performed by
  socket \<open>sid\<close>, when \<open>grp\<close> holds the pairs (socket, group) of the transport.
\<close>

fun recipients :: "(string \<times> string) set \<Rightarrow> string \<Rightarrow> ('e, 'n) action \<Rightarrow> string set" where
  "recipients grp sid (Join r) = {}"
| "recipients grp sid (Emit m) = {sid}"
| "recipients grp sid (To r m) = {s. (s, r) \<in> grp \<and> s \<noteq> sid}"

subsection \<open>Colours\<close>

definition userColors :: "string list" where
  "userColors = [''#FF6B6B'', ''#4ECDC4'', ''#45B7D1'', ''#96CEB4'',
                 ''#FFEAA7'', ''#DDA0DD'', ''#98D8E8'', ''#F7DC6F'']"

definition getAvailableColor :: "('e, 'n) room \<Rightarrow> string" where
  "getAvailableColor room =
     (let usedColors = map color (map_values (users room))
      in case List.find (\<lambda>c. c \<notin> set usedColors) userColors of
           Some c \<Rightarrow> c
         | None \<Rightarrow> userColors ! 0)"

subsection \<open>The handlers\<close>

text \<open>
  \<open>create_room\<close> draws random room ids until one is not in the registry. The draws are
  an input of the model, in the order \<open>generateRoomId\<close> returns them; the loop leaves with
  the first one that is free, and \<open>None\<close> says that every draw supplied was taken, so the
  loop has not left yet. \<open>now\<close> is the value of \<open>Date.now()\<close>.
\<close>

definition create_room ::
  "string \<Rightarrow> string \<Rightarrow> 'n \<Rightarrow> string list \<Rightarrow> ('e, 'n) rooms
     \<Rightarrow> (('e, 'n) rooms \<times> ('e, 'n) action list) option" where
  "create_room sid username now draws rooms =
     (case List.find (\<lambda>roomId. \<not> map_has rooms roomId) draws of
        None \<Rightarrow> None
      | Some roomId \<Rightarrow>
          let room = \<lparr>room_id = roomId, users = [], canvasState = [], lastUpdate = now\<rparr>;
              user = \<lparr>user_id = sid, name = username, color = getAvailableColor room,
                      cursor = None, isDrawing = False\<rparr>;
              room = room\<lparr>users := map_set sid user (users room)\<rparr>
          in Some (map_set roomId room rooms, [Join roomId, Emit (RoomCreated roomId user)]))"

definition join_room ::
  "string \<Rightarrow> string \<Rightarrow> string \<Rightarrow> ('e, 'n) rooms \<Rightarrow> ('e, 'n) rooms \<times> ('e, 'n) action list" where
  "join_room sid roomId username rooms =
     (case map_get rooms roomId of
        None \<Rightarrow> (rooms, [Emit (RoomError ''Room not found'')])
      | Some room \<Rightarrow>
          if map_size (users room) \<ge> 10 then (rooms, [Emit (RoomError ''Room is full'')])
          else
            let user = \<lparr>user_id = sid, name = username, color = getAvailableColor room,
                        cursor = None, isDrawing = False\<rparr>;
                room = room\<lparr>users := map_set sid user (users room)\<rparr>
            in (map_set roomId room rooms,
                [Join roomId,
                 Emit (RoomJoined roomId user (map_values (users room)) (canvasState room)),
                 To roomId (UserJoined user)]))"

definition canvas_update ::
  "string \<Rightarrow> string \<Rightarrow> 'e list \<Rightarrow> 'n \<Rightarrow> ('e, 'n) rooms \<Rightarrow> ('e, 'n) rooms \<times> ('e, 'n) action list" where
  "canvas_update sid roomId elements timestamp rooms =
     (case map_get rooms roomId of
        None \<Rightarrow> (rooms, [])
      | Some room \<Rightarrow>
          (map_set roomId (room\<lparr>canvasState := elements, lastUpdate := timestamp\<rparr>) rooms,
           [To roomId (CanvasUpdated elements sid timestamp)]))"

definition cursor_move ::
  "string \<Rightarrow> string \<Rightarrow> 'n \<Rightarrow> 'n \<Rightarrow> ('e, 'n) rooms \<Rightarrow> ('e, 'n) rooms \<times> ('e, 'n) action list" where
  "cursor_move sid roomId x y rooms =
     (case map_get rooms roomId of
        None \<Rightarrow> (rooms, [])
      | Some room \<Rightarrow>
          (case map_get (users room) sid of
             None \<Rightarrow> (rooms, [])
           | Some user \<Rightarrow>
               let user = user\<lparr>cursor := Some (x, y)\<rparr>
               in (map_set roomId (room\<lparr>users := map_set sid user (users room)\<rparr>) rooms,
                   [To roomId (CursorUpdated sid (cursor user) (color user) (name user)
                                 (isDrawing user))])))"

definition drawing_start ::
  "string \<Rightarrow> string \<Rightarrow> ('e, 'n) rooms \<Rightarrow> ('e, 'n) rooms \<times> ('e, 'n) action list" where
  "drawing_start sid roomId rooms =
     (case map_get rooms roomId of
        None \<Rightarrow> (rooms, [])
      | Some room \<Rightarrow>
          (case map_get (users room) sid of
             None \<Rightarrow> (rooms, [])
           | Some user \<Rightarrow>
               let user = user\<lparr>isDrawing := True\<rparr>
               in (map_set roomId (room\<lparr>users := map_set sid user (users room)\<rparr>) rooms,
                   [To roomId (UserDrawingStart sid (color user) (name user))])))"

definition drawing_end ::
  "string \<Rightarrow> string \<Rightarrow> ('e, 'n) rooms \<Rightarrow> ('e, 'n) rooms \<times> ('e, 'n) action list" where
  "drawing_end sid roomId rooms =
     (case map_get rooms roomId of
        None \<Rightarrow> (rooms, [])
      | Some room \<Rightarrow>
          (case map_get (users room) sid of
             None \<Rightarrow> (rooms, [])
           | Some user \<Rightarrow>
               let user = user\<lparr>isDrawing := False\<rparr>
               in (map_set roomId (room\<lparr>users := map_set sid user (users room)\<rparr>) rooms,
                   [To roomId (UserDrawingEnd sid)])))"

definition request_sync ::
  "string \<Rightarrow> string \<Rightarrow> ('e, 'n) rooms \<Rightarrow> ('e, 'n) rooms \<times> ('e, 'n) action list" where
  "request_sync sid roomId rooms =
     (case map_get rooms roomId of
        None \<Rightarrow> (rooms, [])
      | Some room \<Rightarrow>
          (rooms, [Emit (SyncResponse (canvasState room) (lastUpdate room)
                           (map_values (users room)))]))"

text \<open>
  The \<open>disconnect\<close> handler walks the registry in insertion order and leaves the loop at
  the first room that has the socket (\<open>break\<close>): \<open>List.find\<close>. The room loses the user
  and is deleted from the registry when it has no user left; otherwise the rest of its
  transport group is told.
\<close>

definition disconnect ::
  "string \<Rightarrow> ('e, 'n) rooms \<Rightarrow> ('e, 'n) rooms \<times> ('e, 'n) action list" where
  "disconnect sid rooms =
     (case List.find (\<lambda>(roomId, room). map_has (users room) sid) rooms of
        None \<Rightarrow> (rooms, [])
      | Some (roomId, room) \<Rightarrow>
          (case map_get (users room) sid of
             None \<Rightarrow> (rooms, [])
           | Some user \<Rightarrow>
               let room = room\<lparr>users := map_delete sid (users room)\<rparr>
               in if map_size (users room) = 0 then (map_delete roomId rooms, [])
                  else (map_set roomId room rooms, [To roomId (UserLeft sid (name user))])))"

subsection \<open>Events and runs\<close>

datatype ('e, 'n) event =
    CreateRoom string 'n "string list"
  | JoinRoom string string
  | CanvasUpdate string "'e list" 'n
  | CursorMove string 'n 'n
  | DrawingStart string
  | DrawingEnd string
  | RequestSync string
  | Disconnect

fun step ::
  "string \<Rightarrow> ('e, 'n) event \<Rightarrow> ('e, 'n) rooms \<Rightarrow> (('e, 'n) rooms \<times> ('e, 'n) action list) option" where
  "step sid (CreateRoom username now draws) rooms = create_room sid username now draws rooms"
| "step sid (JoinRoom roomId username) rooms = Some (join_room sid roomId username rooms)"
| "step sid (CanvasUpdate roomId elements timestamp) rooms =
     Some (canvas_update sid roomId elements timestamp rooms)"
| "step sid (CursorMove roomId x y) rooms = Some (cursor_move sid roomId x y rooms)"
| "step sid (DrawingStart roomId) rooms = Some (drawing_start sid roomId rooms)"
| "step sid (DrawingEnd roomId) rooms = Some (drawing_end sid roomId rooms)"
| "step sid (RequestSync roomId) rooms = Some (request_sync sid roomId rooms)"
| "step sid Disconnect rooms = Some (disconnect sid rooms)"

text \<open>The registry after a sequence of events, each with the socket it came from.\<close>

fun run :: "('e, 'n) rooms \<Rightarrow> (string \<times> ('e, 'n) event) list \<Rightarrow> ('e, 'n) rooms option" where
  "run rooms [] = Some rooms"
| "run rooms ((sid, ev) # evs) =
     (case step sid ev rooms of None \<Rightarrow> None | Some (rooms', acts) \<Rightarrow> run rooms' evs)"

text \<open>The user that socket \<open>sid\<close> is in room \<open>roomId\<close>, when the room exists and has it.\<close>

definition participant :: "('e, 'n) rooms \<Rightarrow> string \<Rightarrow> string \<Rightarrow> 'n user option" where
  "participant rooms roomId sid =
     (case map_get rooms roomId of None \<Rightarrow> None | Some room \<Rightarrow> map_get (users room) sid)"

subsection \<open>The transport\<close>











section \<open>The whiteboard gateway (whiteboard.gateway.ts)\<close>

text \<open>
  The gateway has no rooms: every connection shares the one store \<open>objects\<close>, a plain
  JavaScript object used as a dictionary from object id to whiteboard object. A whiteboard
  object has an id, a dictionary \<open>props\<close> and any further keys (\<open>rest\<close>); the values of
  \<open>props\<close> and \<open>rest\<close> are opaque to the gateway, so their type \<open>'v\<close> is left open. The
  order in which JavaScript enumerates the keys of an object plays no part below, and the
  dictionaries are maps. The id is optional because the modify handler can build an entry
  that has none (see \<open>handleObjectModified\<close>); the payload of an event carries one.
\<close>

record 'v whiteboard_object =
  obj_id :: "string option"
  props :: "string \<rightharpoonup> 'v"
  rest :: "string \<rightharpoonup> 'v"

type_synonym 'v store = "string \<rightharpoonup> 'v whiteboard_object"

text \<open>The key \<open>data.id\<close> indexes the store with; a missing id reads as \<open>undefined\<close>.\<close>

definition key :: "'v whiteboard_object \<Rightarrow> string" where
  "key data = (case obj_id data of Some i \<Rightarrow> i | None \<Rightarrow> ''undefined'')"

text \<open>
  The store is created by the literal \<open>{}\<close>, so its prototype is \<open>Object.prototype\<close>, and
  the property read \<open>this.objects[k]\<close> falls back on the members of the prototype when the
  store has no entry \<open>k\<close> of its own. These are the names of those members; each of them
  is a function, or the prototype itself for \<open>__proto__\<close>: a value that is truthy, has no
  enumerable property of its own and no member \<open>props\<close>.
\<close>

definition Object_prototype :: "string list" where
  "Object_prototype =
     [''constructor'', ''__defineGetter__'', ''__defineSetter__'', ''hasOwnProperty'',
      ''__lookupGetter__'', ''__lookupSetter__'', ''isPrototypeOf'', ''propertyIsEnumerable'',
      ''toString'', ''valueOf'', ''__proto__'', ''toLocaleString'']"

datatype 'v property = Own "'v whiteboard_object" | Inherited | Undefined

definition read_property :: "'v store \<Rightarrow> string \<Rightarrow> 'v property" where
  "read_property objects k =
     (case objects k of
        Some ob \<Rightarrow> Own ob
      | None \<Rightarrow> if k \<in> set Object_prototype then Inherited else Undefined)"

text \<open>
  The assignment \<open>this.objects[k] = v\<close> stores the entry, except for the key \<open>__proto__\<close>
  when the store has no entry of that name: it then reaches the setter of the prototype
  and replaces the prototype of the store by \<open>v\<close>. This embedding covers the store with
  its first prototype: \<open>None\<close> says that the handler has replaced it.
\<close>

definition assign_property :: "'v store \<Rightarrow> string \<Rightarrow> 'v whiteboard_object \<Rightarrow> 'v store option" where
  "assign_property objects k v =
     (if objects k = None \<and> k = ''__proto__'' then None else Some (objects(k \<mapsto> v)))"

subsection \<open>The event log (event-log.service.ts)\<close>

datatype 'v payload =
    ClientId string
  | Objects "'v store"
  | Data "'v whiteboard_object"
  | NoPayload

record 'v log_entry =
  log_event :: string
  log_timestamp :: string
  log_payload :: "'v payload"

text \<open>
  \<open>now\<close> is the formatted time of the call. The log keeps the last 100 entries: the new
  one is pushed, and the oldest shifted out when the length has passed 100.
\<close>

definition log :: "string \<Rightarrow> string \<Rightarrow> 'v payload \<Rightarrow> 'v log_entry list \<Rightarrow> 'v log_entry list" where
  "log now eventName pl eventLogs =
     (let eventLogs = eventLogs @ [\<lparr>log_event = eventName, log_timestamp = now, log_payload = pl\<rparr>]
      in if length eventLogs > 100 then tl eventLogs else eventLogs)"

subsection \<open>The handlers of the gateway\<close>

record 'v gateway =
  objects :: "'v store"
  eventLogs :: "'v log_entry list"

text \<open>
  \<open>ObjectSync\<close> carries \<open>Object.values(this.objects)\<close>, the stored objects: the model
  passes the store they are the values of. \<open>ClientEmit\<close> is \<open>client.emit\<close>, a message to
  the client of the handler only; \<open>BroadcastEmit\<close> is \<open>client.broadcast.emit\<close>, a message
  to every connection except that client.
\<close>

datatype 'v gateway_msg =
    ObjectSync "'v store"
  | ObjectAdded "'v whiteboard_object"
  | ObjectModified "'v whiteboard_object"
  | ObjectRemoved "'v whiteboard_object"
  | CanvasClear

datatype 'v gateway_action =
    ClientEmit "'v gateway_msg"
  | BroadcastEmit "'v gateway_msg"


definition handleDisconnect ::
  "string \<Rightarrow> string \<Rightarrow> 'v gateway \<Rightarrow> 'v gateway \<times> 'v gateway_action list" where
  "handleDisconnect client now g =
     (g\<lparr>eventLogs := log now ''client:disconnected'' (ClientId client) (eventLogs g)\<rparr>, [])"

definition handleObjectAdded ::
  "'v whiteboard_object \<Rightarrow> string \<Rightarrow> 'v gateway
     \<Rightarrow> ('v gateway \<times> 'v gateway_action list) option" where
  "handleObjectAdded data now g =
     (let logs = log now ''object:added'' (Data data) (eventLogs g)
      in case assign_property (objects g) (key data) data of
           None \<Rightarrow> None
         | Some objs \<Rightarrow>
             Some (g\<lparr>objects := objs, eventLogs := logs\<rparr>, [BroadcastEmit (ObjectAdded data)]))"

text \<open>
  The guard \<open>if (this.objects[data.id])\<close> is a property read: it passes for an entry of
  the store and for an inherited member (both truthy). Spreading an entry copies its id
  and its other keys, and \<open>props\<close> becomes the old \<open>props\<close> overlaid with those of the
  payload. Spreading an inherited member copies nothing and its \<open>props\<close> is
  \<open>undefined\<close>, so the new entry has the \<open>props\<close> of the payload and nothing else.
\<close>

definition handleObjectModified ::
  "'v whiteboard_object \<Rightarrow> string \<Rightarrow> 'v gateway
     \<Rightarrow> ('v gateway \<times> 'v gateway_action list) option" where
  "handleObjectModified data now g =
     (let logs = log now ''object:modified'' (Data data) (eventLogs g)
      in case read_property (objects g) (key data) of
           Undefined \<Rightarrow> Some (g\<lparr>eventLogs := logs\<rparr>, [])
         | Own old \<Rightarrow>
             (case assign_property (objects g) (key data)
                     (old\<lparr>props := props old ++ props data\<rparr>) of
                None \<Rightarrow> None
              | Some objs \<Rightarrow>
                  Some (g\<lparr>objects := objs, eventLogs := logs\<rparr>,
                        [BroadcastEmit (ObjectModified data)]))
         | Inherited \<Rightarrow>
             (case assign_property (objects g) (key data)
                     \<lparr>obj_id = None, props = props data, rest = Map.empty\<rparr> of
                None \<Rightarrow> None
              | Some objs \<Rightarrow>
                  Some (g\<lparr>objects := objs, eventLogs := logs\<rparr>,
                        [BroadcastEmit (ObjectModified data)])))"

definition handleObjectRemoved ::
  "'v whiteboard_object \<Rightarrow> string \<Rightarrow> 'v gateway \<Rightarrow> 'v gateway \<times> 'v gateway_action list" where
  "handleObjectRemoved data now g =
     (let logs = log now ''object:removed'' (Data data) (eventLogs g)
      in (g\<lparr>objects := (objects g)(key data := None), eventLogs := logs\<rparr>,
          [BroadcastEmit (ObjectRemoved data)]))"

definition handleCanvasClear ::
  "string \<Rightarrow> 'v gateway \<Rightarrow> 'v gateway \<times> 'v gateway_action list" where
  "handleCanvasClear now g =
     (g\<lparr>objects := Map.empty, eventLogs := log now ''canvas:clear'' NoPayload (eventLogs g)\<rparr>,
      [BroadcastEmit CanvasClear])"

section \<open>Observations and example states\<close>

text \<open>The canvas and its time stamp, as stored for room \<open>roomId\<close>.\<close>

definition canvas :: "('e, 'n) rooms \<Rightarrow> string \<Rightarrow> ('e list \<times> 'n) option" where
  "canvas rooms roomId =
     map_option (\<lambda>room. (canvasState room, lastUpdate room)) (map_get rooms roomId)"

text \<open>Who is in which room, with name and colour.\<close>

definition roster :: "('e, 'n) rooms \<Rightarrow> (string \<times> (string \<times> string \<times> string) list) list" where
  "roster rooms =
     map (\<lambda>(roomId, room).
            (roomId, map (\<lambda>u. (user_id u, name u, color u)) (map_values (users room)))) rooms"

text \<open>
  The colour rule in the words of the specification: \<open>c\<close> is the first entry of the
  palette that is not in \<open>used\<close>, or the first entry of the palette when all are in
  \<open>used\<close>.
\<close>

definition palette_rule :: "string set \<Rightarrow> string \<Rightarrow> bool" where
  "palette_rule used c \<longleftrightarrow>
     (\<exists>i < length userColors. c = userColors ! i \<and> c \<notin> used \<and> (\<forall>j < i. userColors ! j \<in> used))
     \<or> (set userColors \<subseteq> used \<and> c = userColors ! 0)"

text \<open>
  What a \<open>Map\<close> guarantees of the registry (no key twice), and what the handlers keep
  true of it: no room without a user.
\<close>

definition well_formed :: "('e, 'n) rooms \<Rightarrow> bool" where
  "well_formed rooms \<longleftrightarrow>
     distinct (map fst rooms) \<and> (\<forall>(roomId, room) \<in> set rooms. users room \<noteq> [])"

text \<open>A room \<open>R\<close> that Ann has created from socket \<open>s1\<close>.\<close>

definition new_user :: "string \<Rightarrow> string \<Rightarrow> string \<Rightarrow> nat user" where
  "new_user sid username c =
     \<lparr>user_id = sid, name = username, color = c, cursor = None, isDrawing = False\<rparr>"

definition ann :: "nat user" where
  "ann = new_user ''s1'' ''Ann'' ''#FF6B6B''"

definition ann_room :: "(nat, nat) room" where
  "ann_room = \<lparr>room_id = ''R'', users = [(''s1'', ann)], canvasState = [], lastUpdate = 0\<rparr>"

definition ann_rooms :: "(nat, nat) rooms" where
  "ann_rooms = [(''R'', ann_room)]"



text \<open>A room \<open>R\<close> with nine and with ten users, and the events that fill it.\<close>

definition nine_joins :: "(string \<times> (nat, nat) event) list" where
  "nine_joins =
     (''s1'', CreateRoom ''u1'' 0 [''R'']) #
     map (\<lambda>s. (s, JoinRoom ''R'' ''u''))
       [''s2'', ''s3'', ''s4'', ''s5'', ''s6'', ''s7'', ''s8'', ''s9'']"

definition nine_users :: "(string \<times> nat user) list" where
  "nine_users =
     [(''s1'', new_user ''s1'' ''u1'' ''#FF6B6B''), (''s2'', new_user ''s2'' ''u'' ''#4ECDC4''),
      (''s3'', new_user ''s3'' ''u'' ''#45B7D1''), (''s4'', new_user ''s4'' ''u'' ''#96CEB4''),
      (''s5'', new_user ''s5'' ''u'' ''#FFEAA7''), (''s6'', new_user ''s6'' ''u'' ''#DDA0DD''),
      (''s7'', new_user ''s7'' ''u'' ''#98D8E8''), (''s8'', new_user ''s8'' ''u'' ''#F7DC6F''),
      (''s9'', new_user ''s9'' ''u'' ''#FF6B6B'')]"

definition ten_users :: "(string \<times> nat user) list" where
  "ten_users = nine_users @ [(''s10'', new_user ''s10'' ''u'' ''#FF6B6B'')]"

definition crowd_room :: "(string \<times> nat user) list \<Rightarrow> (nat, nat) room" where
  "crowd_room us = \<lparr>room_id = ''R'', users = us, canvasState = [], lastUpdate = 0\<rparr>"

definition crowd :: "(string \<times> nat user) list \<Rightarrow> (nat, nat) rooms" where
  "crowd us = [(''R'', crowd_room us)]"

text \<open>Two payloads for the object \<open>r1\<close>, and the gateway at its start.\<close>

definition rect :: "string whiteboard_object" where
  "rect = \<lparr>obj_id = Some ''r1'', props = [''shape'' \<mapsto> ''rect''], rest = Map.empty\<rparr>"

definition red :: "string whiteboard_object" where
  "red = \<lparr>obj_id = Some ''r1'', props = [''color'' \<mapsto> ''red''], rest = Map.empty\<rparr>"

definition empty_gateway :: "string gateway" where
  "empty_gateway = \<lparr>objects = Map.empty, eventLogs = []\<rparr>"

section \<open>Lemmas about the room server\<close>

lemmas example_defs = ann_def ann_room_def ann_rooms_def new_user_def

lemmas crowd_defs = crowd_def crowd_room_def nine_users_def ten_users_def new_user_def

lemma find_SomeD: "List.find P xs = Some x \<Longrightarrow> x \<in> set xs \<and> P x"
  by (auto simp: find_Some_iff)

lemma length_update_new:
  "map_of al k = None \<Longrightarrow> length (AList.update k v al) = Suc (length al)"
  by (induction al) auto

lemma set_update_cases:
  "(k', v') \<in> set (AList.update k v al) \<Longrightarrow> (k', v') = (k, v) \<or> (k', v') \<in> set al"
  by (induction al) (auto split: if_splits)

lemma set_delete_subset: "(k', v') \<in> set (AList.delete k al) \<Longrightarrow> (k', v') \<in> set al"
  by (simp add: AList.delete_eq)

lemma getAvailableColor_rule:
  "palette_rule (set (map color (map_values (users room)))) (getAvailableColor room)"
proof -
  define used where "used = set (map color (map_values (users room)))"
  have eq: "getAvailableColor room =
      (case List.find (\<lambda>c. c \<notin> used) userColors of Some c \<Rightarrow> c | None \<Rightarrow> userColors ! 0)"
    unfolding getAvailableColor_def used_def Let_def ..
  show ?thesis
    unfolding used_def [symmetric]
  proof (cases "List.find (\<lambda>c. c \<notin> used) userColors")
    case None
    then have "set userColors \<subseteq> used"
      by (auto simp: find_None_iff)
    with None eq show "palette_rule used (getAvailableColor room)"
      by (simp add: palette_rule_def)
  next
    case (Some c)
    then obtain i where "i < length userColors" "c = userColors ! i" "c \<notin> used"
      "\<forall>j < i. userColors ! j \<in> used"
      by (auto simp: find_Some_iff)
    with Some eq show "palette_rule used (getAvailableColor room)"
      unfolding palette_rule_def by auto
  qed
qed

lemma join_room_success:
  assumes "map_get rooms roomId = Some room" "map_size (users room) < 10"
  shows "join_room sid roomId username rooms =
     (let user = \<lparr>user_id = sid, name = username, color = getAvailableColor room,
                  cursor = None, isDrawing = False\<rparr>;
          room' = room\<lparr>users := map_set sid user (users room)\<rparr>
      in (map_set roomId room' rooms,
          [Join roomId, Emit (RoomJoined roomId user (map_values (users room')) (canvasState room)),
           To roomId (UserJoined user)]))"
  using assms by (simp add: join_room_def Let_def)

lemma participant_update_room:
  "participant (map_set roomId room rooms) r p =
     (if r = roomId then map_get (users room) p else participant rooms r p)"
  by (simp add: participant_def update_conv')



text \<open>
  The two ways out of the \<open>disconnect\<close> handler, when no room id is twice in the
  registry: no room has the socket and nothing happens, or the first room that has it
  loses it, and is deleted when that leaves it empty.
\<close>

lemma disconnect_cases:
  fixes rooms :: "('e, 'n) rooms"
  assumes "distinct (map fst rooms)"
  shows "(disconnect sid rooms = (rooms, []) \<and> (\<forall>(r, room) \<in> set rooms. \<not> map_has (users room) sid))
       \<or> (\<exists>roomId room user. map_get rooms roomId = Some room \<and> map_get (users room) sid = Some user \<and>
            (if map_delete sid (users room) = [] then disconnect sid rooms = (map_delete roomId rooms, [])
             else disconnect sid rooms =
                    (map_set roomId (room\<lparr>users := map_delete sid (users room)\<rparr>) rooms,
                     [To roomId (UserLeft sid (name user))])))"
proof (cases "List.find (\<lambda>(roomId, room). map_has (users room) sid) rooms")
  case None
  then have "disconnect sid rooms = (rooms, [])"
    by (simp add: disconnect_def)
  moreover from None have "\<forall>(r, room) \<in> set rooms. \<not> map_has (users room) sid"
    by (auto simp: find_None_iff)
  ultimately show ?thesis by blast
next
  case (Some a)
  obtain roomId room where a: "a = (roomId, room)" by (cases a)
  with Some have "(roomId, room) \<in> set rooms" and "map_has (users room) sid"
    by (auto dest: find_SomeD)
  with assms obtain user where "map_get rooms roomId = Some room" "map_get (users room) sid = Some user"
    by auto
  with Some a show ?thesis
    by (intro disjI2 exI [of _ roomId] exI [of _ room] exI [of _ user])
       (simp add: disconnect_def Let_def)
qed

subsection \<open>No room without a user\<close>

lemma well_formed_update:
  "well_formed rooms \<Longrightarrow> users room \<noteq> [] \<Longrightarrow> well_formed (map_set roomId room rooms)"
  unfolding well_formed_def
  by (auto simp: distinct_update dest!: set_update_cases)

lemma well_formed_delete:
  "well_formed rooms \<Longrightarrow> well_formed (map_delete roomId rooms)"
  unfolding well_formed_def
  by (auto simp: distinct_delete dest!: set_delete_subset)

lemma well_formed_lookup:
  "well_formed rooms \<Longrightarrow> map_get rooms roomId = Some room \<Longrightarrow> users room \<noteq> []"
  unfolding well_formed_def by (auto dest: map_of_SomeD)

lemma well_formed_step:
  fixes rooms :: "('e, 'n) rooms"
  assumes "well_formed rooms" "step sid ev rooms = Some (rooms', acts)"
  shows "well_formed rooms'"
proof (cases ev)
  case (CreateRoom username now draws)
  with assms show ?thesis
    by (auto simp: create_room_def Let_def split: option.splits intro!: well_formed_update)
next
  case (JoinRoom roomId username)
  with assms show ?thesis
    by (auto simp: join_room_def Let_def split: option.splits if_splits intro!: well_formed_update)
next
  case (CanvasUpdate roomId elements ts)
  with assms show ?thesis
    by (auto simp: canvas_update_def split: option.splits
        intro!: well_formed_update dest: well_formed_lookup)
next
  case (CursorMove roomId x y)
  with assms show ?thesis
    by (auto simp: cursor_move_def Let_def split: option.splits intro!: well_formed_update)
next
  case (DrawingStart roomId)
  with assms show ?thesis
    by (auto simp: drawing_start_def Let_def split: option.splits intro!: well_formed_update)
next
  case (DrawingEnd roomId)
  with assms show ?thesis
    by (auto simp: drawing_end_def Let_def split: option.splits intro!: well_formed_update)
next
  case (RequestSync roomId)
  with assms show ?thesis
    by (auto simp: request_sync_def split: option.splits)
next
  case Disconnect
  from assms(1) have "distinct (map fst rooms)" by (simp add: well_formed_def)
  from disconnect_cases [OF this, of sid] Disconnect assms show ?thesis
    by (auto split: if_splits intro!: well_formed_update well_formed_delete)
qed

lemma well_formed_run:
  fixes rooms :: "('e, 'n) rooms"
  shows "well_formed rooms \<Longrightarrow> run rooms evs = Some rooms' \<Longrightarrow> well_formed rooms'"
proof (induction evs arbitrary: rooms)
  case Nil
  then show ?case by simp
next
  case (Cons a evs)
  obtain sid ev where a: "a = (sid, ev)" by (cases a)
  with Cons.prems obtain rooms1 acts where s: "step sid ev rooms = Some (rooms1, acts)"
    and r: "run rooms1 evs = Some rooms'"
    by (auto split: option.splits)
  from well_formed_step [OF Cons.prems(1) s] r show ?case
    by (rule Cons.IH)
qed

text \<open>
  Whatever events the server has handled since its start, no room of the registry has
  an empty user map.
\<close>

lemma no_empty_room_reachable:
  fixes rooms :: "('e, 'n) rooms"
  assumes "run [] evs = Some rooms" "map_get rooms roomId = Some room"
  shows "users room \<noteq> []"
proof -
  have "well_formed ([] :: ('e, 'n) rooms)" by (simp add: well_formed_def)
  from well_formed_run [OF this assms(1)] assms(2) show ?thesis
    by (rule well_formed_lookup)
qed

text \<open>
  When the room the \<open>disconnect\<close> handler stops at has no other user, the room is gone
  from the registry, and a join that names it is answered with \<open>Room not found\<close>.
\<close>

lemma last_participant_leaves:
  fixes rooms :: "('e, 'n) rooms"
  assumes "List.find (\<lambda>(roomId, room). map_has (users room) sid) rooms = Some (roomId, room)"
    and "map_delete sid (users room) = []"
  shows "map_get (fst (disconnect sid rooms)) roomId = None \<and>
         join_room sid' roomId username (fst (disconnect sid rooms)) =
           (fst (disconnect sid rooms), [Emit (RoomError ''Room not found'')])"
proof -
  from assms(1) have "map_has (users room) sid" by (auto dest: find_SomeD)
  with assms have "fst (disconnect sid rooms) = map_delete roomId rooms"
    by (auto simp: disconnect_def Let_def)
  then show ?thesis
    by (simp add: delete_conv' join_room_def)
qed

subsection \<open>What each handler leaves alone\<close>








subsection \<open>The transport group of a room and its users\<close>









subsection \<open>The example states are states of the server\<close>

lemma ann_rooms_reachable:
  "run [] [(''s1'', CreateRoom ''Ann'' 0 [''R''])] = Some ann_rooms"
  by (simp add: create_room_def getAvailableColor_def userColors_def Let_def example_defs)

lemma nine_reachable: "run [] nine_joins = Some (crowd nine_users)"
  by (simp add: nine_joins_def create_room_def join_room_def getAvailableColor_def
      userColors_def Let_def crowd_defs)

lemma ten_reachable:
  "run [] (nine_joins @ [(''s10'', JoinRoom ''R'' ''u'')]) = Some (crowd ten_users)"
  by (simp add: nine_joins_def create_room_def join_room_def getAvailableColor_def
      userColors_def Let_def crowd_defs)

section \<open>The claims about the room server\<close>

text \<open>
  Claim C2, as stated, fails for a join by a socket that is already in the room. Room \<open>R\<close>
  has nine users, \<open>s1\<close> among them, and \<open>s1\<close> sends \<open>join_room\<close> for \<open>R\<close> again: the
  join succeeds, the entry of \<open>s1\<close> is replaced, and the room still has nine users.
\<close>

theorem rejoin_at_nine_keeps_count:
  "run [] nine_joins = Some (crowd nine_users) \<and>
   map_size (users (crowd_room nine_users)) = 9 \<and>
   join_room ''s1'' ''R'' ''again'' (crowd nine_users) =
     (crowd (map_set ''s1'' (new_user ''s1'' ''again'' ''#FF6B6B'') nine_users),
      [Join ''R'',
       Emit (RoomJoined ''R'' (new_user ''s1'' ''again'' ''#FF6B6B'')
               (map_values (map_set ''s1'' (new_user ''s1'' ''again'' ''#FF6B6B'') nine_users)) []),
       To ''R'' (UserJoined (new_user ''s1'' ''again'' ''#FF6B6B''))]) \<and>
   map_size (users (crowd_room (map_set ''s1'' (new_user ''s1'' ''again'' ''#FF6B6B'') nine_users))) = 9"
proof -
  have a: "map_size (users (crowd_room nine_users)) = 9"
    by (simp add: crowd_room_def nine_users_def)
  have b: "join_room ''s1'' ''R'' ''again'' (crowd nine_users) =
     (crowd (map_set ''s1'' (new_user ''s1'' ''again'' ''#FF6B6B'') nine_users),
      [Join ''R'',
       Emit (RoomJoined ''R'' (new_user ''s1'' ''again'' ''#FF6B6B'')
               (map_values (map_set ''s1'' (new_user ''s1'' ''again'' ''#FF6B6B'') nine_users)) []),
       To ''R'' (UserJoined (new_user ''s1'' ''again'' ''#FF6B6B''))])"
    by (simp add: join_room_def getAvailableColor_def userColors_def Let_def crowd_defs)
  have c: "map_size (users (crowd_room (map_set ''s1'' (new_user ''s1'' ''again'' ''#FF6B6B'') nine_users))) = 9"
    by (simp add: crowd_room_def nine_users_def)
  from nine_reachable a b c show ?thesis by simp
qed

text \<open>
  Claim C2, amended. A join of a room that has ten users or more is answered with
  \<open>Room is full\<close>, to the joining socket only, and leaves the registry as it is. A join
  of a room with nine users by a socket that is not among them succeeds: the socket is
  added, the room has ten users, and the joiner is sent the snapshot.
\<close>

theorem join_room_capacity:
  fixes rooms :: "('e, 'n) rooms"
  assumes "map_get rooms roomId = Some room"
  shows "(10 \<le> map_size (users room) \<longrightarrow>
            join_room sid roomId username rooms = (rooms, [Emit (RoomError ''Room is full'')]) \<and>
            recipients grp sid (Emit (RoomError ''Room is full'') :: ('e, 'n) action) = {sid}) \<and>
         (map_size (users room) = 9 \<and> \<not> map_has (users room) sid \<longrightarrow>
            (\<exists>room' user.
                map_get (fst (join_room sid roomId username rooms)) roomId = Some room' \<and>
                map_get (users room') sid = Some user \<and> map_size (users room') = 10 \<and>
                snd (join_room sid roomId username rooms) =
                  [Join roomId,
                   Emit (RoomJoined roomId user (map_values (users room')) (canvasState room')),
                   To roomId (UserJoined user)]))"
  using assms
  by (auto simp: join_room_def Let_def update_conv' length_update_new)

theorem join_room_capacity_witness:
  "map_get (crowd nine_users) ''R'' = Some (crowd_room nine_users) \<and>
   map_size (users (crowd_room nine_users)) = 9 \<and>
   \<not> map_has (users (crowd_room nine_users)) ''s10'' \<and>
   (\<exists>room' user.
       map_get (fst (join_room ''s10'' ''R'' ''u'' (crowd nine_users))) ''R'' = Some room' \<and>
       map_get (users room') ''s10'' = Some user \<and> map_size (users room') = 10 \<and>
       snd (join_room ''s10'' ''R'' ''u'' (crowd nine_users)) =
         [Join ''R'',
          Emit (RoomJoined ''R'' user (map_values (users room')) (canvasState room')),
          To ''R'' (UserJoined user)]) \<and>
   map_get (crowd ten_users) ''R'' = Some (crowd_room ten_users) \<and>
   10 \<le> map_size (users (crowd_room ten_users)) \<and>
   join_room ''s11'' ''R'' ''u'' (crowd ten_users) =
     (crowd ten_users, [Emit (RoomError ''Room is full'')])"
proof -
  have r9: "map_get (crowd nine_users) ''R'' = Some (crowd_room nine_users)"
    by (simp add: crowd_def)
  have s9: "map_size (users (crowd_room nine_users)) = 9 \<and>
            \<not> map_has (users (crowd_room nine_users)) ''s10''"
    by (simp add: crowd_room_def nine_users_def)
  have r10: "map_get (crowd ten_users) ''R'' = Some (crowd_room ten_users)"
    by (simp add: crowd_def)
  have s10: "10 \<le> map_size (users (crowd_room ten_users))"
    by (simp add: crowd_room_def nine_users_def ten_users_def)
  note nine = join_room_capacity [OF r9, of "''s10''" "''u''", THEN conjunct2, rule_format, OF s9]
  note ten = join_room_capacity [OF r10, of "''s11''" "''u''", THEN conjunct1, rule_format, OF s10,
      THEN conjunct1]
  from r9 s9 nine r10 s10 ten show ?thesis
    by simp
qed

text \<open>
  Claim C3. The claim fails on the code. The comment of the \<open>disconnect\<close> handler says
  \<open>Remove user from all rooms\<close>, and the loop leaves at the first room that has the
  socket. Socket \<open>s1\<close> creates room \<open>A\<close>, then room \<open>B\<close>, then disconnects: room \<open>A\<close> is
  deleted, and room \<open>B\<close> stays in the registry with the departed \<open>s1\<close> as its only user.
\<close>

theorem disconnect_leaves_second_room:
  "run [] [(''s1'', CreateRoom ''Ann'' (0::nat) [''A'']),
           (''s1'', CreateRoom ''Ann'' 1 [''B'']),
           (''s1'', Disconnect)]
   = Some [(''B'', \<lparr>room_id = ''B'',
                    users = [(''s1'', \<lparr>user_id = ''s1'', name = ''Ann'', color = ''#FF6B6B'',
                                       cursor = None, isDrawing = False\<rparr>)],
                    canvasState = ([] :: nat list), lastUpdate = 1\<rparr>)]"
  by (simp add: create_room_def disconnect_def getAvailableColor_def userColors_def Let_def)

text \<open>
  Claim C4. A canvas update for a room of the registry overwrites the canvas of the room
  with the elements of the payload and its \<open>lastUpdate\<close> with the time stamp of the
  payload, whatever the room held before and whoever sent it; the other rooms keep what they
  had. Handling the same payload a second time leaves the registry as the first time left
  it.
\<close>

theorem canvas_update_last_writer_wins:
  fixes rooms :: "('e, 'n) rooms"
  assumes "map_get rooms roomId = Some room"
  shows "map_get (fst (canvas_update sid roomId elements ts rooms)) roomId =
           Some (room\<lparr>canvasState := elements, lastUpdate := ts\<rparr>) \<and>
         (\<forall>r. r \<noteq> roomId \<longrightarrow>
            map_get (fst (canvas_update sid roomId elements ts rooms)) r = map_get rooms r) \<and>
         fst (canvas_update sid' roomId elements ts
                (fst (canvas_update sid roomId elements ts rooms))) =
           fst (canvas_update sid roomId elements ts rooms)"
  using assms by (simp add: canvas_update_def update_conv')

theorem canvas_update_last_writer_wins_witness:
  "map_get ann_rooms ''R'' = Some ann_room \<and>
   map_get (fst (canvas_update ''s1'' ''R'' [7, 8] 3 ann_rooms)) ''R'' =
     Some (ann_room\<lparr>canvasState := [7, 8], lastUpdate := 3\<rparr>) \<and>
   map_get (fst (canvas_update ''s1'' ''R'' [7, 8] 3 ann_rooms)) ''Q'' = map_get ann_rooms ''Q'' \<and>
   fst (canvas_update ''s2'' ''R'' [7, 8] 3 (fst (canvas_update ''s1'' ''R'' [7, 8] 3 ann_rooms))) =
     fst (canvas_update ''s1'' ''R'' [7, 8] 3 ann_rooms)"
proof -
  have h: "map_get ann_rooms ''R'' = Some ann_room"
    by (simp add: ann_rooms_def)
  from canvas_update_last_writer_wins [OF h, of "''s1''" "[7, 8]" 3 "''s2''"] h
  show ?thesis by simp
qed

text \<open>
  Claim C7, as stated, fails. No handler looks at what the socket has done before. Socket
  \<open>s2\<close> is not in room \<open>R\<close>, and its canvas update for \<open>R\<close> is stored and sent to the
  group of \<open>R\<close>. And socket \<open>s2\<close>, which has created room \<open>Q\<close> and is in it, joins room
  \<open>R\<close> and is then in both.
\<close>

theorem nonparticipant_canvas_update_applied:
  "participant ann_rooms ''R'' ''s2'' = None \<and>
   canvas_update ''s2'' ''R'' [5] 9 ann_rooms =
     ([(''R'', ann_room\<lparr>canvasState := [5], lastUpdate := 9\<rparr>)],
      [To ''R'' (CanvasUpdated [5] ''s2'' 9)]) \<and>
   map_option roster (run ([] :: (nat, nat) rooms)
      [(''s1'', CreateRoom ''Ann'' 0 [''R'']), (''s2'', CreateRoom ''Bob'' 1 [''Q'']),
       (''s2'', JoinRoom ''R'' ''Bob'')])
     = Some [(''R'', [(''s1'', ''Ann'', ''#FF6B6B''), (''s2'', ''Bob'', ''#4ECDC4'')]),
             (''Q'', [(''s2'', ''Bob'', ''#FF6B6B'')])]"
  by (simp add: participant_def canvas_update_def example_defs roster_def create_room_def
      join_room_def getAvailableColor_def userColors_def Let_def)

text \<open>
  Claim C7, amended. An event that names a room that is not in the registry is ignored:
  canvas update, cursor move, drawing start and end and sync request leave the registry as
  it is and send nothing. A cursor move or a drawing start or end from a socket that is
  not a user of the room named is ignored in the same way. A canvas update for a room of
  the registry is stored and sent to the group of the room whether or not the sender is a
  user of it, and a join of a room that is not full adds the socket to it and leaves the
  socket in every other room it is in.
\<close>

theorem out_of_state_events:
  fixes rooms :: "('e, 'n) rooms"
  shows
  "(map_get rooms roomId = None \<longrightarrow>
      canvas_update sid roomId elements ts rooms = (rooms, []) \<and>
      cursor_move sid roomId x y rooms = (rooms, []) \<and>
      drawing_start sid roomId rooms = (rooms, []) \<and>
      drawing_end sid roomId rooms = (rooms, []) \<and>
      request_sync sid roomId rooms = (rooms, [])) \<and>
   (participant rooms roomId sid = None \<longrightarrow>
      cursor_move sid roomId x y rooms = (rooms, []) \<and>
      drawing_start sid roomId rooms = (rooms, []) \<and>
      drawing_end sid roomId rooms = (rooms, [])) \<and>
   (map_get rooms roomId = Some room \<longrightarrow>
      canvas (fst (canvas_update sid roomId elements ts rooms)) roomId = Some (elements, ts) \<and>
      snd (canvas_update sid roomId elements ts rooms) =
        [To roomId (CanvasUpdated elements sid ts)]) \<and>
   (map_get rooms roomId = Some room \<and> map_size (users room) < 10 \<longrightarrow>
      participant (fst (join_room sid roomId username rooms)) roomId sid \<noteq> None \<and>
      (\<forall>r. r \<noteq> roomId \<longrightarrow>
         participant (fst (join_room sid roomId username rooms)) r sid = participant rooms r sid))"
  by (auto simp: canvas_update_def cursor_move_def drawing_start_def drawing_end_def
      request_sync_def participant_def canvas_def update_conv' join_room_success Let_def
      split: option.splits)

theorem out_of_state_events_witness:
  "map_get ann_rooms ''Q'' = None \<and>
   canvas_update ''s1'' ''Q'' [5] 9 ann_rooms = (ann_rooms, []) \<and>
   cursor_move ''s1'' ''Q'' 3 4 ann_rooms = (ann_rooms, []) \<and>
   drawing_start ''s1'' ''Q'' ann_rooms = (ann_rooms, []) \<and>
   drawing_end ''s1'' ''Q'' ann_rooms = (ann_rooms, []) \<and>
   request_sync ''s1'' ''Q'' ann_rooms = (ann_rooms, []) \<and>
   participant ann_rooms ''R'' ''s2'' = None \<and>
   cursor_move ''s2'' ''R'' 3 4 ann_rooms = (ann_rooms, []) \<and>
   drawing_start ''s2'' ''R'' ann_rooms = (ann_rooms, []) \<and>
   drawing_end ''s2'' ''R'' ann_rooms = (ann_rooms, []) \<and>
   map_get ann_rooms ''R'' = Some ann_room \<and> map_size (users ann_room) < 10 \<and>
   canvas (fst (canvas_update ''s2'' ''R'' [5] 9 ann_rooms)) ''R'' = Some ([5], 9) \<and>
   snd (canvas_update ''s2'' ''R'' [5] 9 ann_rooms) = [To ''R'' (CanvasUpdated [5] ''s2'' 9)] \<and>
   participant (fst (join_room ''s2'' ''R'' ''Bob'' ann_rooms)) ''R'' ''s2'' \<noteq> None \<and>
   participant (fst (join_room ''s2'' ''R'' ''Bob'' ann_rooms)) ''Q'' ''s2'' =
     participant ann_rooms ''Q'' ''s2''"
proof -
  have h1: "map_get ann_rooms ''Q'' = None" by (simp add: ann_rooms_def)
  have h2: "participant ann_rooms ''R'' ''s2'' = None"
    by (simp add: participant_def example_defs)
  have h3: "map_get ann_rooms ''R'' = Some ann_room" by (simp add: ann_rooms_def)
  have h4: "map_size (users ann_room) < 10" by (simp add: ann_room_def)
  note a = out_of_state_events [where rooms = ann_rooms and roomId = "''Q''" and sid = "''s1''"
      and elements = "[5]" and ts = 9 and x = 3 and y = 4, THEN conjunct1, rule_format, OF h1]
  note b = out_of_state_events [where rooms = ann_rooms and roomId = "''R''" and sid = "''s2''"
      and x = 3 and y = 4, THEN conjunct2, THEN conjunct1, rule_format, OF h2]
  note c = out_of_state_events [where rooms = ann_rooms and roomId = "''R''" and sid = "''s2''"
      and elements = "[5]" and ts = 9 and room = ann_room, THEN conjunct2, THEN conjunct2,
      THEN conjunct1, rule_format, OF h3]
  note d = out_of_state_events [where rooms = ann_rooms and roomId = "''R''" and sid = "''s2''"
      and username = "''Bob''" and room = ann_room, THEN conjunct2, THEN conjunct2,
      THEN conjunct2, rule_format, OF conjI [OF h3 h4]]
  from d have d': "participant (fst (join_room ''s2'' ''R'' ''Bob'' ann_rooms)) ''Q'' ''s2'' =
     participant ann_rooms ''Q'' ''s2''" by simp
  from a b c d d' h1 h2 h3 h4 show ?thesis by simp
qed

text \<open>
  Claim C8. On every successful join, and on every create, the colour of the new
  participant is the first entry of the palette of eight colours that no user of the room has
  at that moment, and the first entry of the palette when all eight are taken. A room
  just created has no user yet, so its creator gets the first colour.
\<close>

theorem new_participant_color:
  fixes rooms :: "('e, 'n) rooms"
  shows "length userColors = 8 \<and>
   (map_get rooms roomId = Some room \<and> map_size (users room) < 10 \<longrightarrow>
      (\<exists>user. participant (fst (join_room sid roomId username rooms)) roomId sid = Some user \<and>
              palette_rule (set (map color (map_values (users room)))) (color user))) \<and>
   (create_room sid username now draws rooms = Some (rooms', acts) \<longrightarrow>
      (\<exists>roomId user. map_get rooms roomId = None \<and>
              map_option users (map_get rooms' roomId) = Some [(sid, user)] \<and>
              palette_rule {} (color user) \<and> color user = userColors ! 0))"
proof -
  have len: "length userColors = 8" by (simp add: userColors_def)
  have join: "map_get rooms roomId = Some room \<and> map_size (users room) < 10 \<longrightarrow>
      (\<exists>user. participant (fst (join_room sid roomId username rooms)) roomId sid = Some user \<and>
              palette_rule (set (map color (map_values (users room)))) (color user))"
    using getAvailableColor_rule [of room]
    by (simp add: join_room_success Let_def participant_update_room update_conv')
  have create: "create_room sid username now draws rooms = Some (rooms', acts) \<longrightarrow>
      (\<exists>roomId user. map_get rooms roomId = None \<and>
              map_option users (map_get rooms' roomId) = Some [(sid, user)] \<and>
              palette_rule {} (color user) \<and> color user = userColors ! 0)"
  proof
    assume "create_room sid username now draws rooms = Some (rooms', acts)"
    then obtain roomId where r: "map_get rooms roomId = None"
      and eq: "rooms' = map_set roomId \<lparr>room_id = roomId,
          users = [(sid, \<lparr>user_id = sid, name = username, color = userColors ! 0,
                           cursor = None, isDrawing = False\<rparr>)],
          canvasState = [], lastUpdate = now\<rparr> rooms"
      by (auto simp: create_room_def Let_def find_Some_iff getAvailableColor_def userColors_def
          split: option.splits)
    have "palette_rule {} (userColors ! 0)"
      unfolding palette_rule_def by (intro disjI1 exI [of _ 0]) (simp add: userColors_def)
    with r eq show "\<exists>roomId user. map_get rooms roomId = None \<and>
              map_option users (map_get rooms' roomId) = Some [(sid, user)] \<and>
              palette_rule {} (color user) \<and> color user = userColors ! 0"
      by (intro exI [of _ roomId]) (simp add: update_conv')
  qed
  from len join create show ?thesis by blast
qed

theorem new_participant_color_witness:
  "map_get ann_rooms ''R'' = Some ann_room \<and> map_size (users ann_room) < 10 \<and>
   (\<exists>user. participant (fst (join_room ''s2'' ''R'' ''Bob'' ann_rooms)) ''R'' ''s2'' = Some user \<and>
           palette_rule (set (map color (map_values (users ann_room)))) (color user)) \<and>
   create_room ''s1'' ''Ann'' 0 [''R''] [] = Some (ann_rooms, [Join ''R'', Emit (RoomCreated ''R'' ann)]) \<and>
   (\<exists>roomId user. map_get ([] :: (nat, nat) rooms) roomId = None \<and>
           map_option users (map_get ann_rooms roomId) = Some [(''s1'', user)] \<and>
           palette_rule {} (color user) \<and> color user = userColors ! 0)"
proof -
  have h1: "map_get ann_rooms ''R'' = Some ann_room \<and> map_size (users ann_room) < 10"
    by (simp add: example_defs)
  have h2: "create_room ''s1'' ''Ann'' 0 [''R''] [] =
      Some (ann_rooms, [Join ''R'', Emit (RoomCreated ''R'' ann)])"
    by (simp add: create_room_def getAvailableColor_def userColors_def example_defs Let_def)
  from new_participant_color [where rooms = ann_rooms and roomId = "''R''" and room = ann_room
         and sid = "''s2''" and username = "''Bob''"]
       new_participant_color [where rooms = "[]" and sid = "''s1''" and username = "''Ann''"
         and now = 0 and draws = "[''R'']" and rooms' = ann_rooms
         and acts = "[Join ''R'', Emit (RoomCreated ''R'' ann)]"]
       h1 h2
  show ?thesis by blast
qed







section \<open>The claims about the gateway\<close>

text \<open>
  A modify event whose id has no entry in the store and is not the name of a member of
  \<open>Object.prototype\<close> is logged and changes nothing else: the store stays as it is and
  nothing is sent.
\<close>

lemma modify_absent_noop:
  fixes g :: "'v gateway"
  assumes "objects g (key data) = None" "key data \<notin> set Object_prototype"
  shows "handleObjectModified data now g =
           Some (g\<lparr>eventLogs := log now ''object:modified'' (Data data) (eventLogs g)\<rparr>, [])"
  using assms by (simp add: handleObjectModified_def read_property_def Let_def)

text \<open>
  Claim C1. A modify event for the id \<open>i\<close> of a stored object is sent on to the other
  connections and replaces the stored object by one with the same id and the same other
  keys, whose \<open>props\<close> has, at every key, the value of the payload's \<open>props\<close> when the
  payload has the key, and the stored value otherwise; the other entries of the store stay
  as they are. In particular, on any store, adding \<open>r1\<close> with shape \<open>rect\<close> and then
  modifying \<open>r1\<close> with color \<open>red\<close> leaves \<open>r1\<close> stored with both.
\<close>

theorem modify_shallow_merge:
  fixes g :: "'v gateway" and g0 :: "string gateway"
  assumes "objects g i = Some old" and "key data = i"
  shows "(\<exists>g' new. handleObjectModified data now g =
                      Some (g', [BroadcastEmit (ObjectModified data)]) \<and>
            objects g' i = Some new \<and> obj_id new = obj_id old \<and> rest new = rest old \<and>
            (\<forall>k. props new k = (case props data k of Some v \<Rightarrow> Some v | None \<Rightarrow> props old k)) \<and>
            (\<forall>j. j \<noteq> i \<longrightarrow> objects g' j = objects g j)) \<and>
         (\<exists>g1 g2 a1 a2. handleObjectAdded rect t1 g0 = Some (g1, a1) \<and>
            handleObjectModified red t2 g1 = Some (g2, a2) \<and>
            objects g2 ''r1'' =
              Some \<lparr>obj_id = Some ''r1'', props = [''shape'' \<mapsto> ''rect'', ''color'' \<mapsto> ''red''],
                    rest = Map.empty\<rparr>)"
proof
  from assms
  have "handleObjectModified data now g =
      Some (g\<lparr>objects := (objects g)(i \<mapsto> old\<lparr>props := props old ++ props data\<rparr>),
              eventLogs := log now ''object:modified'' (Data data) (eventLogs g)\<rparr>,
            [BroadcastEmit (ObjectModified data)])"
    by (simp add: handleObjectModified_def read_property_def assign_property_def Let_def)
  then show "\<exists>g' new. handleObjectModified data now g =
                      Some (g', [BroadcastEmit (ObjectModified data)]) \<and>
            objects g' i = Some new \<and> obj_id new = obj_id old \<and> rest new = rest old \<and>
            (\<forall>k. props new k = (case props data k of Some v \<Rightarrow> Some v | None \<Rightarrow> props old k)) \<and>
            (\<forall>j. j \<noteq> i \<longrightarrow> objects g' j = objects g j)"
    by (simp add: map_add_def split: option.splits)
next
  show "\<exists>g1 g2 a1 a2. handleObjectAdded rect t1 g0 = Some (g1, a1) \<and>
            handleObjectModified red t2 g1 = Some (g2, a2) \<and>
            objects g2 ''r1'' =
              Some \<lparr>obj_id = Some ''r1'', props = [''shape'' \<mapsto> ''rect'', ''color'' \<mapsto> ''red''],
                    rest = Map.empty\<rparr>"
    by (simp add: handleObjectAdded_def handleObjectModified_def read_property_def
        assign_property_def key_def rect_def red_def Let_def)
qed

theorem modify_shallow_merge_witness:
  "objects (empty_gateway\<lparr>objects := [''r1'' \<mapsto> rect]\<rparr>) ''r1'' = Some rect \<and> key red = ''r1'' \<and>
   (\<exists>g' new. handleObjectModified red ''12:00'' (empty_gateway\<lparr>objects := [''r1'' \<mapsto> rect]\<rparr>)
                = Some (g', [BroadcastEmit (ObjectModified red)]) \<and>
        objects g' ''r1'' = Some new \<and> obj_id new = obj_id rect \<and> rest new = rest rect \<and>
        (\<forall>k. props new k = (case props red k of Some v \<Rightarrow> Some v | None \<Rightarrow> props rect k)) \<and>
        (\<forall>j. j \<noteq> ''r1'' \<longrightarrow>
           objects g' j = objects (empty_gateway\<lparr>objects := [''r1'' \<mapsto> rect]\<rparr>) j))"
proof -
  have h: "objects (empty_gateway\<lparr>objects := [''r1'' \<mapsto> rect]\<rparr>) ''r1'' = Some rect"
      "key red = ''r1''"
    by (simp_all add: key_def red_def)
  from modify_shallow_merge [OF h, of "''12:00''", THEN conjunct1] h
  show ?thesis by (intro conjI) (simp_all only:)
qed

text \<open>
  Claim C5. The claim fails on the code for the ids that name a member of
  \<open>Object.prototype\<close>. The store is empty and has no entry \<open>toString\<close>; the guard of the
  modify handler reads the inherited function of that name, which is truthy, so the
  handler stores an entry \<open>toString\<close> made of the payload's \<open>props\<close> and sends the event
  on to the other connections.
\<close>

theorem modify_inherited_key_not_noop:
  "handleObjectModified
      \<lparr>obj_id = Some ''toString'', props = [''color'' \<mapsto> ''red''], rest = Map.empty\<rparr>
      ''12:00'' empty_gateway
   = Some (\<lparr>objects = [''toString'' \<mapsto>
                         \<lparr>obj_id = None, props = [''color'' \<mapsto> ''red''], rest = Map.empty\<rparr>],
            eventLogs =
              [\<lparr>log_event = ''object:modified'', log_timestamp = ''12:00'',
                log_payload = Data \<lparr>obj_id = Some ''toString'', props = [''color'' \<mapsto> ''red''],
                                     rest = Map.empty\<rparr>\<rparr>]\<rparr>,
           [BroadcastEmit
              (ObjectModified \<lparr>obj_id = Some ''toString'', props = [''color'' \<mapsto> ''red''],
                               rest = Map.empty\<rparr>)])"
  by (simp add: handleObjectModified_def read_property_def assign_property_def key_def
      Object_prototype_def empty_gateway_def log_def Let_def)

text \<open>
  Claim C6, as stated, fails. A remove event for an id that has no entry leaves the store
  as it is, but it is not without effect: the handler logs it and sends it on to the other
  connections, as it does every remove event.
\<close>

theorem remove_absent_still_broadcasts:
  "objects empty_gateway (key rect) = None \<and>
   handleObjectRemoved rect ''12:00'' empty_gateway =
     (\<lparr>objects = Map.empty,
       eventLogs = [\<lparr>log_event = ''object:removed'', log_timestamp = ''12:00'',
                     log_payload = Data rect\<rparr>]\<rparr>,
      [BroadcastEmit (ObjectRemoved rect)])"
  by (simp add: handleObjectRemoved_def empty_gateway_def log_def Let_def key_def rect_def)

text \<open>
  Claim C6, amended. A remove event deletes the entry of its id from the store and leaves
  the other entries as they are, so that an id without entry leaves the store unchanged;
  in both cases the event is logged and sent on to the other connections.
\<close>

theorem remove_deletes_and_relays:
  fixes g :: "'v gateway"
  shows "objects (fst (handleObjectRemoved data now g)) (key data) = None \<and>
         (\<forall>j. j \<noteq> key data \<longrightarrow>
            objects (fst (handleObjectRemoved data now g)) j = objects g j) \<and>
         (objects g (key data) = None \<longrightarrow>
            objects (fst (handleObjectRemoved data now g)) = objects g) \<and>
         snd (handleObjectRemoved data now g) = [BroadcastEmit (ObjectRemoved data)] \<and>
         eventLogs (fst (handleObjectRemoved data now g)) =
           log now ''object:removed'' (Data data) (eventLogs g)"
  by (auto simp: handleObjectRemoved_def Let_def)

theorem remove_deletes_and_relays_witness:
  "objects (empty_gateway\<lparr>objects := [''r1'' \<mapsto> rect]\<rparr>) ''r1'' = Some rect \<and>
   objects (fst (handleObjectRemoved red ''12:00'' (empty_gateway\<lparr>objects := [''r1'' \<mapsto> rect]\<rparr>)))
     ''r1'' = None \<and>
   objects (fst (handleObjectRemoved red ''12:00'' (empty_gateway\<lparr>objects := [''r1'' \<mapsto> rect]\<rparr>)))
     ''r2'' = objects (empty_gateway\<lparr>objects := [''r1'' \<mapsto> rect]\<rparr>) ''r2'' \<and>
   objects empty_gateway (key red) = None \<and>
   objects (fst (handleObjectRemoved red ''12:00'' empty_gateway)) = objects empty_gateway \<and>
   snd (handleObjectRemoved red ''12:00'' empty_gateway) = [BroadcastEmit (ObjectRemoved red)]"
proof -
  have k: "key red = ''r1''" by (simp add: key_def red_def)
  have h: "objects empty_gateway (key red) = None" by (simp add: empty_gateway_def)
  note a = remove_deletes_and_relays [of red "''12:00''" "empty_gateway\<lparr>objects := [''r1'' \<mapsto> rect]\<rparr>"]
  note b = remove_deletes_and_relays [of red "''12:00''" empty_gateway]
  from a b k h show ?thesis by simp
qed

end
